theory Spec2Isabelle
  imports Complex_Main "HOL-Library.Char_ord" "HOL-Library.List_Lexorder"
begin

section \<open>Personal finance tracker: the ledger and reporting core\<close>

text \<open>
  A shallow embedding of the class \<open>PersonalFinanceTracker\<close> of
  \<open>src/personalfinancetracker.py\<close>. The SQLite database behind \<open>self.conn\<close> is a
  record of row lists, one list per table, in rowid order; every method takes the
  database and returns the new one. A Python exception is a value of \<open>py_error\<close>.

  Conventions of the model:
  \<^item> \<open>REAL\<close> columns and Python floats are exact real numbers (no rounding, no NaN);
  \<^item> \<open>TEXT\<close> values are byte strings, compared bytewise as SQLite's \<open>BINARY\<close>
    collation does (the order of \<open>HOL-Library.List_Lexorder\<close> over
    \<open>HOL-Library.Char_ord\<close>); the \<open>DATE\<close> columns hold such text;
  \<^item> the clock (\<open>datetime.date.today()\<close>, SQLite's \<open>date('now')\<close> and
    \<open>CURRENT_TIMESTAMP\<close>) is an argument of the method that reads it.
\<close>

subsection \<open>Errors\<close>

datatype py_error = TypeError | ValueError | OverflowError | IntegrityError

subsection \<open>Tables\<close>

text \<open>\<open>type TEXT CHECK(type IN ('income', 'expense')) NOT NULL\<close>\<close>

datatype category_type = Income | Expense

record category =
  c_id :: int
  c_name :: string
  c_type :: category_type
  c_color :: string
  c_budget_limit :: real

record txn =
  t_id :: int
  t_amount :: real
  t_description :: string
  t_category_id :: int
  t_date :: string
  t_payment_method :: string
  t_location :: string
  t_tags :: string
  t_created_at :: string

record budget =
  b_id :: int
  b_category_id :: int
  b_amount :: real
  b_period :: string
  b_start_date :: string
  b_end_date :: string
  b_alert_threshold :: real

record goal =
  g_id :: int
  g_name :: string
  g_target_amount :: real
  g_current_amount :: real
  g_target_date :: "string option"
  g_description :: string
  g_priority :: int
  g_achieved :: bool

record account =
  a_id :: int
  a_name :: string
  a_balance :: real

text \<open>
  The five tables, and for each \<open>AUTOINCREMENT\<close> key the largest rowid handed out so
  far (SQLite's \<open>sqlite_sequence\<close>).
\<close>

record db =
  categories :: "category list"
  transactions :: "txn list"
  budgets :: "budget list"
  goals :: "goal list"
  accounts :: "account list"
  seq_categories :: int
  seq_transactions :: int
  seq_budgets :: int
  seq_goals :: int

definition empty_db :: db where
  "empty_db = \<lparr>categories = [], transactions = [], budgets = [], goals = [], accounts = [],
     seq_categories = 0, seq_transactions = 0, seq_budgets = 0, seq_goals = 0\<rparr>"

subsection \<open>Python's \<open>str\<close> and format specifications for integers\<close>

definition digit_char :: "nat \<Rightarrow> char" where
  "digit_char d = ''0123456789'' ! d"

fun str_nat :: "nat \<Rightarrow> string" where
  "str_nat n = (if n < 10 then [digit_char n] else str_nat (n div 10) @ [digit_char (n mod 10)])"

declare str_nat.simps [simp del]

text \<open>\<open>str(n)\<close>, which is also \<open>f"{n}"\<close>.\<close>

definition py_str :: "int \<Rightarrow> string" where
  "py_str n = (if n < 0 then CHR ''-'' # str_nat (nat (- n)) else str_nat (nat n))"

definition zfill :: "nat \<Rightarrow> string \<Rightarrow> string" where
  "zfill w ds = replicate (w - length ds) CHR ''0'' @ ds"

text \<open>
  \<open>f"{n:0wd}"\<close>: the sign first, then zeros up to the width \<open>w\<close>, which counts
  the sign.
\<close>

definition py_format_0d :: "nat \<Rightarrow> int \<Rightarrow> string" where
  "py_format_0d w n =
     (if n < 0 then CHR ''-'' # zfill (w - 1) (str_nat (nat (- n))) else zfill w (str_nat (nat n)))"

subsection \<open>\<open>datetime.date\<close>\<close>

record pydate =
  year :: int
  month :: int
  day :: int

text \<open>\<open>date.isoformat()\<close>: \<open>"%04d-%02d-%02d" % (year, month, day)\<close>.\<close>

definition isoformat :: "pydate \<Rightarrow> string" where
  "isoformat d = py_format_0d 4 (year d) @ ''-'' @ py_format_0d 2 (month d) @ ''-''
     @ py_format_0d 2 (day d)"

subsection \<open>The join of the ledger with its categories\<close>

text \<open>\<open>FROM transactions t JOIN categories c ON t.category_id = c.id\<close>\<close>

definition txn_join :: "db \<Rightarrow> (txn \<times> category) list" where
  "txn_join s = [(t, c). t \<leftarrow> transactions s, c \<leftarrow> categories s, t_category_id t = c_id c]"

text \<open>\<open>SELECT COALESCE(SUM(t.amount), 0) ... WHERE P\<close>: the sum of no row is 0.\<close>

definition sum_amount :: "(txn \<Rightarrow> category \<Rightarrow> bool) \<Rightarrow> db \<Rightarrow> real" where
  "sum_amount P s = sum_list [t_amount t. (t, c) \<leftarrow> txn_join s, P t c]"

subsection \<open>\<open>get_balance_summary\<close>\<close>

record balance_summary =
  total_income :: real
  total_expenses :: real
  net_worth :: real
  monthly_income :: real
  monthly_expenses :: real
  monthly_savings :: real

definition get_balance_summary :: "db \<Rightarrow> pydate \<Rightarrow> balance_summary" where
  "get_balance_summary s today =
     (let total_income = sum_amount (\<lambda>t c. c_type c = Income) s;
          total_expenses = sum_amount (\<lambda>t c. c_type c = Expense) s;
          net_worth = total_income - total_expenses;
          current_month = isoformat (today\<lparr>day := 1\<rparr>);
          monthly_income = sum_amount (\<lambda>t c. c_type c = Income \<and> current_month \<le> t_date t) s;
          monthly_expenses = sum_amount (\<lambda>t c. c_type c = Expense \<and> current_month \<le> t_date t) s
      in \<lparr>total_income = total_income, total_expenses = total_expenses, net_worth = net_worth,
          monthly_income = monthly_income, monthly_expenses = monthly_expenses,
          monthly_savings = monthly_income - monthly_expenses\<rparr>)"

subsection \<open>Inserting rows\<close>

text \<open>
  An \<open>INTEGER PRIMARY KEY AUTOINCREMENT\<close> column gets one more than the largest rowid
  the table has ever held.
\<close>

definition next_rowid :: "int \<Rightarrow> int list \<Rightarrow> int" where
  "next_rowid seq ids = fold max ids seq + 1"

text \<open>
  A method that writes returns the database together with its outcome: what the
  connection holds after an exception is part of the result.
\<close>

type_synonym 'a outcome = "db \<times> (py_error + 'a)"

text \<open>
  \<open>INSERT INTO categories (name, type, color) VALUES (?, ?, ?)\<close>: \<open>name\<close> is
  \<open>UNIQUE\<close>, \<open>budget_limit\<close> defaults to 0.
\<close>

definition insert_category :: "db \<Rightarrow> string \<times> category_type \<times> string \<Rightarrow> unit outcome" where
  "insert_category s row =
     (case row of (name, type, color) \<Rightarrow>
        if name \<in> set (map c_name (categories s)) then (s, Inl IntegrityError)
        else
          let new_id = next_rowid (seq_categories s) (map c_id (categories s))
          in (s\<lparr>categories := categories s @
                 [\<lparr>c_id = new_id, c_name = name, c_type = type, c_color = color,
                   c_budget_limit = 0\<rparr>],
               seq_categories := new_id\<rparr>, Inr ()))"

text \<open>\<open>cursor.executemany\<close>: one insert per row, stopping at the first that raises.\<close>

fun executemany_categories :: "db \<Rightarrow> (string \<times> category_type \<times> string) list \<Rightarrow> unit outcome" where
  "executemany_categories s [] = (s, Inr ())"
| "executemany_categories s (row # rows) =
     (case insert_category s row of
        (s', Inl e) \<Rightarrow> (s', Inl e)
      | (s', Inr _) \<Rightarrow> executemany_categories s' rows)"

subsection \<open>\<open>populate_default_categories\<close>\<close>

text \<open>
  The names of the ten default categories are Russian words; each is given here as the
  UTF-8 bytes that SQLite stores, under a constant named by its transliteration.
\<close>

definition Zarplata :: string where
  "Zarplata =
    [CHR 0xD0, CHR 0x97, CHR 0xD0, CHR 0xB0, CHR 0xD1, CHR 0x80, CHR 0xD0, CHR 0xBF,
     CHR 0xD0, CHR 0xBB, CHR 0xD0, CHR 0xB0, CHR 0xD1, CHR 0x82, CHR 0xD0, CHR 0xB0]"

definition Frilans :: string where
  "Frilans =
    [CHR 0xD0, CHR 0xA4, CHR 0xD1, CHR 0x80, CHR 0xD0, CHR 0xB8, CHR 0xD0, CHR 0xBB,
     CHR 0xD0, CHR 0xB0, CHR 0xD0, CHR 0xBD, CHR 0xD1, CHR 0x81]"

definition Investitsii :: string where
  "Investitsii =
    [CHR 0xD0, CHR 0x98, CHR 0xD0, CHR 0xBD, CHR 0xD0, CHR 0xB2, CHR 0xD0, CHR 0xB5,
     CHR 0xD1, CHR 0x81, CHR 0xD1, CHR 0x82, CHR 0xD0, CHR 0xB8, CHR 0xD1, CHR 0x86,
     CHR 0xD0, CHR 0xB8, CHR 0xD0, CHR 0xB8]"

definition Eda_i_razvlecheniya :: string where
  "Eda_i_razvlecheniya =
    [CHR 0xD0, CHR 0x95, CHR 0xD0, CHR 0xB4, CHR 0xD0, CHR 0xB0, CHR 0x20, CHR 0xD0,
     CHR 0xB8, CHR 0x20, CHR 0xD1, CHR 0x80, CHR 0xD0, CHR 0xB0, CHR 0xD0, CHR 0xB7,
     CHR 0xD0, CHR 0xB2, CHR 0xD0, CHR 0xBB, CHR 0xD0, CHR 0xB5, CHR 0xD1, CHR 0x87,
     CHR 0xD0, CHR 0xB5, CHR 0xD0, CHR 0xBD, CHR 0xD0, CHR 0xB8, CHR 0xD1, CHR 0x8F]"

definition Transport :: string where
  "Transport =
    [CHR 0xD0, CHR 0xA2, CHR 0xD1, CHR 0x80, CHR 0xD0, CHR 0xB0, CHR 0xD0, CHR 0xBD,
     CHR 0xD1, CHR 0x81, CHR 0xD0, CHR 0xBF, CHR 0xD0, CHR 0xBE, CHR 0xD1, CHR 0x80,
     CHR 0xD1, CHR 0x82]"

definition Pokupki :: string where
  "Pokupki =
    [CHR 0xD0, CHR 0x9F, CHR 0xD0, CHR 0xBE, CHR 0xD0, CHR 0xBA, CHR 0xD1, CHR 0x83,
     CHR 0xD0, CHR 0xBF, CHR 0xD0, CHR 0xBA, CHR 0xD0, CHR 0xB8]"

definition Razvlecheniya :: string where
  "Razvlecheniya =
    [CHR 0xD0, CHR 0xA0, CHR 0xD0, CHR 0xB0, CHR 0xD0, CHR 0xB7, CHR 0xD0, CHR 0xB2,
     CHR 0xD0, CHR 0xBB, CHR 0xD0, CHR 0xB5, CHR 0xD1, CHR 0x87, CHR 0xD0, CHR 0xB5,
     CHR 0xD0, CHR 0xBD, CHR 0xD0, CHR 0xB8, CHR 0xD1, CHR 0x8F]"

definition Scheta_i_kommunalnye :: string where
  "Scheta_i_kommunalnye =
    [CHR 0xD0, CHR 0xA1, CHR 0xD1, CHR 0x87, CHR 0xD0, CHR 0xB5, CHR 0xD1, CHR 0x82,
     CHR 0xD0, CHR 0xB0, CHR 0x20, CHR 0xD0, CHR 0xB8, CHR 0x20, CHR 0xD0, CHR 0xBA,
     CHR 0xD0, CHR 0xBE, CHR 0xD0, CHR 0xBC, CHR 0xD0, CHR 0xBC, CHR 0xD1, CHR 0x83,
     CHR 0xD0, CHR 0xBD, CHR 0xD0, CHR 0xB0, CHR 0xD0, CHR 0xBB, CHR 0xD1, CHR 0x8C,
     CHR 0xD0, CHR 0xBD, CHR 0xD1, CHR 0x8B, CHR 0xD0, CHR 0xB5]"

definition Zdorovye :: string where
  "Zdorovye =
    [CHR 0xD0, CHR 0x97, CHR 0xD0, CHR 0xB4, CHR 0xD0, CHR 0xBE, CHR 0xD1, CHR 0x80,
     CHR 0xD0, CHR 0xBE, CHR 0xD0, CHR 0xB2, CHR 0xD1, CHR 0x8C, CHR 0xD0, CHR 0xB5]"

definition Obrazovanie :: string where
  "Obrazovanie =
    [CHR 0xD0, CHR 0x9E, CHR 0xD0, CHR 0xB1, CHR 0xD1, CHR 0x80, CHR 0xD0, CHR 0xB0,
     CHR 0xD0, CHR 0xB7, CHR 0xD0, CHR 0xBE, CHR 0xD0, CHR 0xB2, CHR 0xD0, CHR 0xB0,
     CHR 0xD0, CHR 0xBD, CHR 0xD0, CHR 0xB8, CHR 0xD0, CHR 0xB5]"

definition default_categories :: "(string \<times> category_type \<times> string) list" where
  "default_categories =
    [(Zarplata, Income, ''#28a745''),
     (Frilans, Income, ''#17a2b8''),
     (Investitsii, Income, ''#ffc107''),
     (Eda_i_razvlecheniya, Expense, ''#dc3545''),
     (Transport, Expense, ''#6f42c1''),
     (Pokupki, Expense, ''#fd7e14''),
     (Razvlecheniya, Expense, ''#e83e8c''),
     (Scheta_i_kommunalnye, Expense, ''#6c757d''),
     (Zdorovye, Expense, ''#20c997''),
     (Obrazovanie, Expense, ''#0d6efd'')]"

definition populate_default_categories :: "db \<Rightarrow> unit outcome" where
  "populate_default_categories s =
     (if int (length (categories s)) = 0 then executemany_categories s default_categories
      else (s, Inr ()))"

subsection \<open>\<open>add_transaction\<close> and \<open>update_balance_after_transaction\<close>\<close>

record clock =
  clk_today :: pydate
  clk_utc_date :: string
  clk_timestamp :: string

text \<open>
  \<open>SELECT id FROM accounts LIMIT 1\<close> has no \<open>ORDER BY\<close>. SQLite answers it from the
  index that \<open>name TEXT UNIQUE\<close> creates, which is ordered by name, so the row it
  returns is the account with the smallest name, not the one inserted first.
\<close>

fun first_account :: "account list \<Rightarrow> account option" where
  "first_account [] = None"
| "first_account (a # rest) =
     (case first_account rest of
        None \<Rightarrow> Some a
      | Some b \<Rightarrow> if a_name a \<le> a_name b then Some a else Some b)"

text \<open>
  \<open>cursor.fetchone()[0]\<close> on the category raises \<open>TypeError\<close> when no row matches;
  the account row is tested with \<open>if account:\<close> before it is used.
\<close>

definition update_balance_after_transaction :: "db \<Rightarrow> real \<Rightarrow> int \<Rightarrow> unit outcome" where
  "update_balance_after_transaction s amount category_id =
     (case [c_type c. c \<leftarrow> categories s, c_id c = category_id] of
        [] \<Rightarrow> (s, Inl TypeError)
      | category_type # _ \<Rightarrow>
          (case first_account (accounts s) of
             None \<Rightarrow> (s, Inr ())
           | Some account \<Rightarrow>
               (if category_type = Income then
                  s\<lparr>accounts := map (\<lambda>a. if a_id a = a_id account
                                          then a\<lparr>a_balance := a_balance a + amount\<rparr> else a)
                                    (accounts s)\<rparr>
                else
                  s\<lparr>accounts := map (\<lambda>a. if a_id a = a_id account
                                          then a\<lparr>a_balance := a_balance a - amount\<rparr> else a)
                                    (accounts s)\<rparr>,
                Inr ())))"

text \<open>
  The row is inserted and committed before the balance update runs; the arguments after
  the clock are those of the method, in its order, \<open>date\<close> being \<open>None\<close> by default.
\<close>

definition add_transaction ::
  "db \<Rightarrow> clock \<Rightarrow> real \<Rightarrow> string \<Rightarrow> int \<Rightarrow> string option \<Rightarrow> string \<Rightarrow> string \<Rightarrow> string
     \<Rightarrow> int outcome" where
  "add_transaction s clk amount description category_id date payment_method location tags =
     (let date = (case date of None \<Rightarrow> isoformat (clk_today clk) | Some d \<Rightarrow> d);
          transaction_id = next_rowid (seq_transactions s) (map t_id (transactions s));
          s1 = s\<lparr>transactions := transactions s @
                  [\<lparr>t_id = transaction_id, t_amount = amount, t_description = description,
                    t_category_id = category_id, t_date = date,
                    t_payment_method = payment_method, t_location = location, t_tags = tags,
                    t_created_at = clk_timestamp clk\<rparr>],
                seq_transactions := transaction_id\<rparr>
      in case update_balance_after_transaction s1 amount category_id of
           (s2, Inl e) \<Rightarrow> (s2, Inl e)
         | (s2, Inr _) \<Rightarrow> (s2, Inr transaction_id))"

subsection \<open>\<open>get_transactions\<close>\<close>

text \<open>Python's truth value of an optional argument: \<open>None\<close>, \<open>''\<close> and \<open>0\<close> are false.\<close>

definition truthy_str :: "string option \<Rightarrow> bool" where
  "truthy_str x = (case x of None \<Rightarrow> False | Some v \<Rightarrow> v \<noteq> [])"

definition truthy_int :: "int option \<Rightarrow> bool" where
  "truthy_int x = (case x of None \<Rightarrow> False | Some v \<Rightarrow> v \<noteq> 0)"

text \<open>
  \<open>ORDER BY t.date DESC, t.created_at DESC\<close>. SQLite leaves the order of rows with equal
  keys open; here they keep the order of the join.
\<close>

definition newer :: "txn \<times> category \<Rightarrow> txn \<times> category \<Rightarrow> bool" where
  "newer x y \<longleftrightarrow> t_date (fst y) < t_date (fst x)
     \<or> (t_date (fst y) = t_date (fst x) \<and> t_created_at (fst y) \<le> t_created_at (fst x))"

fun insert_newest_first :: "txn \<times> category \<Rightarrow> (txn \<times> category) list \<Rightarrow> (txn \<times> category) list" where
  "insert_newest_first x [] = [x]"
| "insert_newest_first x (y # ys) =
     (if newer x y then x # y # ys else y # insert_newest_first x ys)"

definition order_newest_first :: "(txn \<times> category) list \<Rightarrow> (txn \<times> category) list" where
  "order_newest_first rows = foldr insert_newest_first rows []"

text \<open>\<open>LIMIT n\<close>: a negative \<open>n\<close> is no limit.\<close>

definition sql_limit :: "int \<Rightarrow> 'a list \<Rightarrow> 'a list" where
  "sql_limit n rows = (if n < 0 then rows else take (nat n) rows)"

text \<open>
  The selected columns: \<open>t.id, t.amount, t.description, c.name, c.type, t.date,
  t.payment_method, t.location, t.tags\<close>.
\<close>

type_synonym txn_row =
  "int \<times> real \<times> string \<times> string \<times> category_type \<times> string \<times> string \<times> string \<times> string"

definition select_row :: "txn \<times> category \<Rightarrow> txn_row" where
  "select_row x = (case x of (t, c) \<Rightarrow>
     (t_id t, t_amount t, t_description t, c_name c, c_type c, t_date t,
      t_payment_method t, t_location t, t_tags t))"

definition get_transactions ::
  "db \<Rightarrow> string option \<Rightarrow> string option \<Rightarrow> int option \<Rightarrow> int option \<Rightarrow> txn_row list" where
  "get_transactions s start_date end_date category_id limit =
     (let conditions =
            (if truthy_str start_date then [\<lambda>t. the start_date \<le> t_date t] else [])
          @ (if truthy_str end_date then [\<lambda>t. t_date t \<le> the end_date] else [])
          @ (if truthy_int category_id then [\<lambda>t. t_category_id t = the category_id] else []);
          rows = order_newest_first [(t, c). (t, c) \<leftarrow> txn_join s, list_all (\<lambda>P. P t) conditions];
          rows = (if truthy_int limit then sql_limit (the limit) rows else rows)
      in map select_row rows)"

subsection \<open>\<open>create_budget\<close> and \<open>check_budget_status\<close>\<close>

text \<open>
  \<open>period TEXT CHECK(period IN ('weekly', 'monthly', 'yearly'))\<close>;
  \<open>alert_threshold REAL DEFAULT 0.8\<close>. Nothing else is checked: SQLite does not
  enforce the foreign key on \<open>category_id\<close> unless asked to.
\<close>

definition create_budget :: "db \<Rightarrow> int \<Rightarrow> real \<Rightarrow> string \<Rightarrow> string \<Rightarrow> string \<Rightarrow> int outcome" where
  "create_budget s category_id amount period start_date end_date =
     (if period \<notin> set [''weekly'', ''monthly'', ''yearly''] then (s, Inl IntegrityError)
      else
        let budget_id = next_rowid (seq_budgets s) (map b_id (budgets s))
        in (s\<lparr>budgets := budgets s @
               [\<lparr>b_id = budget_id, b_category_id = category_id, b_amount = amount,
                 b_period = period, b_start_date = start_date, b_end_date = end_date,
                 b_alert_threshold = 8 / 10\<rparr>],
             seq_budgets := budget_id\<rparr>, Inr budget_id))"

record budget_status =
  bs_category :: string
  bs_budget :: real
  bs_spent :: real
  bs_remaining :: real
  bs_percentage :: real
  bs_alert :: bool
  bs_period :: string

text \<open>
  \<open>FROM budgets b JOIN categories c ON b.category_id = c.id WHERE b.end_date >= date('now')\<close>
\<close>

definition active_budgets :: "db \<Rightarrow> string \<Rightarrow> (budget \<times> category) list" where
  "active_budgets s now =
     [(b, c). b \<leftarrow> budgets s, c \<leftarrow> categories s, b_category_id b = c_id c, now \<le> b_end_date b]"

definition check_budget_status :: "db \<Rightarrow> string \<Rightarrow> budget_status list" where
  "check_budget_status s now =
     map (\<lambda>(b, c).
            let amount = b_amount b; threshold = b_alert_threshold b; category = c_name c;
                start_date = b_start_date b; end_date = b_end_date b;
                spent = sum_amount (\<lambda>t c'. c_name c' = category
                                         \<and> start_date \<le> t_date t \<and> t_date t \<le> end_date) s;
                percentage = (if amount > 0 then (spent / amount) * 100 else 0)
            in \<lparr>bs_category = category, bs_budget = amount, bs_spent = spent,
                bs_remaining = amount - spent, bs_percentage = percentage,
                bs_alert = (percentage \<ge> threshold * 100), bs_period = b_period b\<rparr>)
         (active_budgets s now)"

subsection \<open>\<open>add_goal\<close>, \<open>update_goal_progress\<close> and \<open>get_goals\<close>\<close>

text \<open>\<open>current_amount REAL DEFAULT 0\<close>, \<open>achieved BOOLEAN DEFAULT 0\<close>.\<close>

definition add_goal :: "db \<Rightarrow> string \<Rightarrow> real \<Rightarrow> string option \<Rightarrow> string \<Rightarrow> int \<Rightarrow> int outcome" where
  "add_goal s name target_amount target_date description priority =
     (let goal_id = next_rowid (seq_goals s) (map g_id (goals s))
      in (s\<lparr>goals := goals s @
             [\<lparr>g_id = goal_id, g_name = name, g_target_amount = target_amount,
               g_current_amount = 0, g_target_date = target_date,
               g_description = description, g_priority = priority, g_achieved = False\<rparr>],
           seq_goals := goal_id\<rparr>, Inr goal_id))"

text \<open>The two \<open>UPDATE\<close> statements, one after the other.\<close>

definition update_goal_progress :: "db \<Rightarrow> int \<Rightarrow> real \<Rightarrow> db" where
  "update_goal_progress s goal_id amount =
     (let s1 = s\<lparr>goals := map (\<lambda>g. if g_id g = goal_id
                                    then g\<lparr>g_current_amount := g_current_amount g + amount\<rparr>
                                    else g) (goals s)\<rparr>
      in s1\<lparr>goals := map (\<lambda>g. if g_id g = goal_id \<and> g_current_amount g \<ge> g_target_amount g
                                then g\<lparr>g_achieved := True\<rparr> else g) (goals s1)\<rparr>)"

text \<open>
  SQLite's \<open>ROUND(x, d)\<close> on an exact real: to \<open>d\<close> decimals, halves away from zero.
\<close>

definition sql_round :: "real \<Rightarrow> nat \<Rightarrow> real" where
  "sql_round x d =
     (if x < 0 then - (of_int \<lfloor>- x * 10 ^ d + 1 / 2\<rfloor> / 10 ^ d)
      else of_int \<lfloor>x * 10 ^ d + 1 / 2\<rfloor> / 10 ^ d)"

text \<open>
  \<open>ROUND((current_amount / target_amount) * 100, 2)\<close>: in SQLite a division by zero
  gives \<open>NULL\<close> (here \<open>None\<close>), and so does every operation on \<open>NULL\<close>.
\<close>

definition progress :: "goal \<Rightarrow> real option" where
  "progress g =
     (if g_target_amount g = 0 then None
      else Some (sql_round ((g_current_amount g / g_target_amount g) * 100) 2))"

text \<open>
  \<open>ORDER BY priority, target_date\<close>: ascending, \<open>NULL\<close> before every value; rows
  with equal keys keep the table's order.
\<close>

definition goal_le :: "goal \<Rightarrow> goal \<Rightarrow> bool" where
  "goal_le x y \<longleftrightarrow> g_priority x < g_priority y
     \<or> (g_priority x = g_priority y \<and>
        (case (g_target_date x, g_target_date y) of
           (None, _) \<Rightarrow> True
         | (Some _, None) \<Rightarrow> False
         | (Some dx, Some dy) \<Rightarrow> dx \<le> dy))"

fun insert_goal :: "goal \<Rightarrow> goal list \<Rightarrow> goal list" where
  "insert_goal x [] = [x]"
| "insert_goal x (y # ys) = (if goal_le x y then x # y # ys else y # insert_goal x ys)"

definition get_goals :: "db \<Rightarrow> (goal \<times> real option) list" where
  "get_goals s = map (\<lambda>g. (g, progress g)) (foldr insert_goal (goals s) [])"

subsection \<open>The calendar arithmetic of \<open>datetime\<close>\<close>

text \<open>
  \<open>datetime.date(y, m, d)\<close>, \<open>date - timedelta(days=k)\<close> and \<open>date.day\<close>, as the
  standard library computes them, through proleptic Gregorian ordinals.
\<close>

definition MINYEAR :: int where "MINYEAR = 1"
definition MAXYEAR :: int where "MAXYEAR = 9999"
definition MAXORDINAL :: int where "MAXORDINAL = 3652059"

definition DAYS_IN_MONTH :: "int list" where
  "DAYS_IN_MONTH = [-1, 31, 28, 31, 30, 31, 30, 31, 31, 30, 31, 30, 31]"

definition DAYS_BEFORE_MONTH :: "int list" where
  "DAYS_BEFORE_MONTH = [-1, 0, 31, 59, 90, 120, 151, 181, 212, 243, 273, 304, 334]"

definition is_leap :: "int \<Rightarrow> bool" where
  "is_leap y \<longleftrightarrow> y mod 4 = 0 \<and> (y mod 100 \<noteq> 0 \<or> y mod 400 = 0)"

definition days_before_year :: "int \<Rightarrow> int" where
  "days_before_year y0 = (let y = y0 - 1 in y * 365 + y div 4 - y div 100 + y div 400)"

definition days_in_month :: "int \<Rightarrow> int \<Rightarrow> int" where
  "days_in_month y m = (if m = 2 \<and> is_leap y then 29 else DAYS_IN_MONTH ! nat m)"

definition days_before_month :: "int \<Rightarrow> int \<Rightarrow> int" where
  "days_before_month y m = DAYS_BEFORE_MONTH ! nat m + (if m > 2 \<and> is_leap y then 1 else 0)"

definition ymd2ord :: "int \<Rightarrow> int \<Rightarrow> int \<Rightarrow> int" where
  "ymd2ord y m d = days_before_year y + days_before_month y m + d"

definition DI400Y :: int where "DI400Y = days_before_year 401"
definition DI100Y :: int where "DI100Y = days_before_year 101"
definition DI4Y :: int where "DI4Y = days_before_year 5"

definition ord2ymd :: "int \<Rightarrow> int \<times> int \<times> int" where
  "ord2ymd n0 =
     (let n = n0 - 1;
          n400 = n div DI400Y; n = n mod DI400Y;
          y = n400 * 400 + 1;
          n100 = n div DI100Y; n = n mod DI100Y;
          n4 = n div DI4Y; n = n mod DI4Y;
          n1 = n div 365; n = n mod 365;
          y = y + n100 * 100 + n4 * 4 + n1
      in if n1 = 4 \<or> n100 = 4 then (y - 1, 12, 31)
         else
           let leapyear = (n1 = 3 \<and> (n4 \<noteq> 24 \<or> n100 = 3));
               m = (n + 50) div 32;
               preceding = DAYS_BEFORE_MONTH ! nat m + (if m > 2 \<and> leapyear then 1 else 0)
           in if preceding > n then
                let m = m - 1;
                    preceding = preceding - (DAYS_IN_MONTH ! nat m
                                  + (if m = 2 \<and> leapyear then 1 else 0))
                in (y, m, n - preceding + 1)
              else (y, m, n - preceding + 1))"

text \<open>The constructor checks its fields and raises \<open>ValueError\<close>.\<close>

definition date_new :: "int \<Rightarrow> int \<Rightarrow> int \<Rightarrow> py_error + pydate" where
  "date_new y m d =
     (if \<not> (MINYEAR \<le> y \<and> y \<le> MAXYEAR) then Inl ValueError
      else if \<not> (1 \<le> m \<and> m \<le> 12) then Inl ValueError
      else if \<not> (1 \<le> d \<and> d \<le> days_in_month y m) then Inl ValueError
      else Inr \<lparr>year = y, month = m, day = d\<rparr>)"

definition toordinal :: "pydate \<Rightarrow> int" where
  "toordinal d = ymd2ord (year d) (month d) (day d)"

definition fromordinal :: "int \<Rightarrow> pydate" where
  "fromordinal n = (case ord2ymd n of (y, m, d) \<Rightarrow> \<lparr>year = y, month = m, day = d\<rparr>)"

text \<open>\<open>d - timedelta(days=k)\<close>: \<open>OverflowError\<close> outside the ordinals of years 1 to 9999.\<close>

definition date_sub_days :: "pydate \<Rightarrow> int \<Rightarrow> py_error + pydate" where
  "date_sub_days d k =
     (let ordinal = toordinal d + (- k)
      in if 0 < ordinal \<and> ordinal \<le> MAXORDINAL then Inr (fromordinal ordinal)
         else Inl OverflowError)"

subsection \<open>The window of \<open>generate_monthly_report\<close>\<close>

text \<open>
  The first statements of \<open>generate_monthly_report\<close>, which compute the two bounds
  \<open>start_date\<close> and \<open>end_date\<close> of every \<open>BETWEEN\<close> of the report.
\<close>

definition report_window :: "int \<Rightarrow> int \<Rightarrow> py_error + string \<times> string" where
  "report_window y m =
     (let start_date = py_str y @ ''-'' @ py_format_0d 2 m @ ''-01''
      in case (if m = 12 then date_new (y + 1) 1 1 else date_new y (m + 1) 1) of
           Inl e \<Rightarrow> Inl e
         | Inr next_month \<Rightarrow>
             (case date_sub_days next_month 1 of
                Inl e \<Rightarrow> Inl e
              | Inr d \<Rightarrow>
                  let last_day = day d;
                      end_date = py_str y @ ''-'' @ py_format_0d 2 m @ ''-''
                                 @ py_format_0d 2 last_day
                  in Inr (start_date, end_date)))"

subsection \<open>Example databases\<close>

text \<open>
  A database with one income and one expense category and one account, the same
  database without the account and with two accounts, of which the one inserted second
  has the smaller name, and a clock.
\<close>

definition food :: category where
  "food = \<lparr>c_id = 2, c_name = ''Food'', c_type = Expense, c_color = ''#dc3545'',
     c_budget_limit = 0\<rparr>"

definition example_db :: db where
  "example_db = empty_db
     \<lparr>categories :=
        [\<lparr>c_id = 1, c_name = ''Salary'', c_type = Income, c_color = ''#28a745'',
          c_budget_limit = 0\<rparr>,
         food],
      accounts := [\<lparr>a_id = 1, a_name = ''Main'', a_balance = 100\<rparr>],
      seq_categories := 2\<rparr>"

definition no_account_db :: db where
  "no_account_db = example_db\<lparr>accounts := []\<rparr>"

definition zeta :: account where
  "zeta = \<lparr>a_id = 1, a_name = ''Zeta'', a_balance = 100\<rparr>"

definition alpha :: account where
  "alpha = \<lparr>a_id = 2, a_name = ''Alpha'', a_balance = 100\<rparr>"

definition two_accounts_db :: db where
  "two_accounts_db = example_db\<lparr>accounts := [zeta, alpha]\<rparr>"

definition example_clock :: clock where
  "example_clock = \<lparr>clk_today = \<lparr>year = 2024, month = 6, day = 15\<rparr>,
     clk_utc_date = ''2024-06-15'', clk_timestamp = ''2024-06-15 10:00:00''\<rparr>"

text \<open>
  The example database after an expense of 300 on \<open>Food\<close> and a budget of 200 for
  \<open>Food\<close> over June 2024; the same with two more budgets, one of a negative amount and
  one for a category id that no category has; and the example database with one goal.
\<close>

definition budget_db :: db where
  "budget_db =
     fst (create_budget
            (fst (add_transaction example_db example_clock 300 ''groceries'' 2 (Some ''2024-06-10'')
                    ''card'' '''' ''''))
            2 200 ''monthly'' ''2024-06-01'' ''2024-06-30'')"

definition odd_budgets_db :: db where
  "odd_budgets_db =
     fst (create_budget
            (fst (create_budget budget_db 2 (- 100) ''monthly'' ''2024-06-01'' ''2024-06-30''))
            7 50 ''monthly'' ''2024-06-01'' ''2024-06-30'')"

definition car :: goal where
  "car = \<lparr>g_id = 1, g_name = ''Car'', g_target_amount = 500, g_current_amount = 0,
     g_target_date = None, g_description = '''', g_priority = 1, g_achieved = False\<rparr>"

definition goal_db :: db where
  "goal_db = fst (add_goal example_db ''Car'' 500 None '''' 1)"

subsection \<open>What the specification says of a budget's status\<close>

text \<open>
  The category a stored id refers to, the spending the specification attributes to a
  category name within a window, and the status it describes for one budget (with the
  percentage as the code guards it: 0 unless the amount is positive).
\<close>

definition category_of :: "db \<Rightarrow> int \<Rightarrow> category option" where
  "category_of s cid = find (\<lambda>c. c_id c = cid) (categories s)"

definition spent_in_window :: "db \<Rightarrow> string \<Rightarrow> string \<Rightarrow> string \<Rightarrow> real" where
  "spent_in_window s name start_date end_date =
     sum_list [t_amount t. t \<leftarrow> transactions s,
                 map_option c_name (category_of s (t_category_id t)) = Some name,
                 start_date \<le> t_date t, t_date t \<le> end_date]"

definition spec_budget_status :: "db \<Rightarrow> budget \<Rightarrow> budget_status" where
  "spec_budget_status s b =
     (let name = c_name (the (category_of s (b_category_id b)));
          spent = spent_in_window s name (b_start_date b) (b_end_date b);
          percentage = (if b_amount b > 0 then spent / b_amount b * 100 else 0)
      in \<lparr>bs_category = name, bs_budget = b_amount b, bs_spent = spent,
          bs_remaining = b_amount b - spent, bs_percentage = percentage,
          bs_alert = (percentage \<ge> b_alert_threshold b * 100), bs_period = b_period b\<rparr>)"

text \<open>The columns that \<open>populate_default_categories\<close> inserts, read back from a row.\<close>

definition row_of :: "category \<Rightarrow> string \<times> category_type \<times> string" where
  "row_of c = (c_name c, c_type c, c_color c)"

subsection \<open>The calendar, for comparison\<close>

text \<open>
  The last calendar day of a month of the Gregorian calendar, as the specification means
  it: 30 days for April, June, September and November, 28 or 29 for February, 31
  otherwise; a year is a leap year when it is divisible by 4 and not by 100, or by 400.
\<close>

definition last_day_of_month :: "int \<Rightarrow> int \<Rightarrow> int" where
  "last_day_of_month y m =
     (if m \<in> {4, 6, 9, 11} then 30
      else if m = 2 then (if y mod 4 = 0 \<and> (y mod 100 \<noteq> 0 \<or> y mod 400 = 0) then 29 else 28)
      else 31)"

text \<open>
  The last statements of \<open>ord2ymd\<close>, from the month estimate on, as a function of the
  day index within the year and of the leap flag. It serves to state what \<open>ord2ymd\<close>
  computes.
\<close>

definition month_day :: "int \<Rightarrow> bool \<Rightarrow> int \<times> int" where
  "month_day n leapyear =
     (let m = (n + 50) div 32;
          preceding = DAYS_BEFORE_MONTH ! nat m + (if m > 2 \<and> leapyear then 1 else 0)
      in if preceding > n then
           let m = m - 1;
               preceding = preceding - (DAYS_IN_MONTH ! nat m
                             + (if m = 2 \<and> leapyear then 1 else 0))
           in (m, n - preceding + 1)
         else (m, n - preceding + 1))"

section \<open>Properties\<close>

lemma sum_amount_no_transactions: "transactions s = [] \<Longrightarrow> sum_amount P s = 0"
  by (simp add: sum_amount_def txn_join_def)

text \<open>
  Claim C1. In every database, \<open>get_balance_summary\<close> returns a net worth equal to
  total income minus total expenses and monthly savings equal to monthly income minus
  monthly expenses; on a ledger without transactions all six fields are 0. The method
  divides nowhere, so it returns a summary for every database and every date.
\<close>

theorem balance_summary_invariant:
  "net_worth (get_balance_summary s today)
     = total_income (get_balance_summary s today) - total_expenses (get_balance_summary s today)
   \<and> monthly_savings (get_balance_summary s today)
     = monthly_income (get_balance_summary s today) - monthly_expenses (get_balance_summary s today)
   \<and> get_balance_summary (s\<lparr>transactions := []\<rparr>) today
     = \<lparr>total_income = 0, total_expenses = 0, net_worth = 0,
        monthly_income = 0, monthly_expenses = 0, monthly_savings = 0\<rparr>"
  by (simp add: get_balance_summary_def Let_def sum_amount_no_transactions)

subsection \<open>Appending to the ledger\<close>

lemma category_resolves:
  "find (\<lambda>c. c_id c = cid) cs = Some c \<Longrightarrow>
     \<exists>rest. [c_type c'. c' \<leftarrow> cs, c_id c' = cid] = c_type c # rest"
  by (induction cs) (auto split: if_splits)

lemma first_account_member: "first_account xs = Some a \<Longrightarrow> a \<in> set xs"
  by (induction xs arbitrary: a) (auto split: option.splits if_splits)

text \<open>Among accounts with unique names, the one with the smallest name is selected.\<close>

lemma first_account_least:
  assumes "a \<in> set xs" "\<forall>x\<in>set xs. a_name a \<le> a_name x" "distinct (map a_name xs)"
  shows "first_account xs = Some a"
  using assms
proof (induction xs)
  case Nil
  then show ?case by simp
next
  case (Cons y ys)
  show ?case
  proof (cases "a = y")
    case True
    show ?thesis
    proof (cases "first_account ys")
      case None
      with True show ?thesis by simp
    next
      case (Some b)
      then have "b \<in> set ys"
        by (rule first_account_member)
      with Cons.prems(2) True have "a_name y \<le> a_name b"
        by simp
      with Some True show ?thesis by simp
    qed
  next
    case False
    with Cons.prems have member: "a \<in> set ys" and least: "\<forall>x\<in>set ys. a_name a \<le> a_name x"
      and names: "distinct (map a_name ys)"
      by auto
    from member least names have rest: "first_account ys = Some a"
      by (rule Cons.IH)
    from Cons.prems(3) member have "a_name y \<noteq> a_name a"
      by auto
    moreover from Cons.prems(2) have "a_name a \<le> a_name y"
      by simp
    ultimately have "\<not> a_name y \<le> a_name a"
      by auto
    with rest show ?thesis by simp
  qed
qed

lemma update_one_account:
  assumes "distinct (map a_id xs)" "a \<in> set xs"
  shows "map (\<lambda>x. if a_id x = a_id a then f x else x) xs = map (\<lambda>x. if x = a then f x else x) xs"
  using assms by (auto simp: distinct_map dest: inj_onD)

lemma example_db_food: "find (\<lambda>c. c_id c = 2) (categories example_db) = Some food"
  by (simp add: example_db_def empty_db_def food_def)

lemma example_clock_today: "isoformat (clk_today example_clock) = ''2024-06-15''"
  by code_simp

lemma example_clock_timestamp: "clk_timestamp example_clock = ''2024-06-15 10:00:00''"
  by (simp add: example_clock_def)

text \<open>
  Claim C2, as the code has it. \<open>add_transaction\<close> does not look at the amount: for
  every amount, also one that is zero or negative, a call whose category id resolves
  returns the new transaction id and stores the transaction with the amount as given.
\<close>

theorem add_transaction_stores_any_amount:
  assumes "find (\<lambda>c. c_id c = category_id) (categories s) = Some c"
  shows "snd (add_transaction s clk amount description category_id date payment_method location tags)
           = Inr (next_rowid (seq_transactions s) (map t_id (transactions s)))
       \<and> map t_amount (transactions (fst (add_transaction s clk amount description category_id date
                                             payment_method location tags)))
           = map t_amount (transactions s) @ [amount]"
proof -
  from category_resolves [OF assms] obtain rest where
    "[c_type c'. c' \<leftarrow> categories s, c_id c' = category_id] = c_type c # rest" by blast
  then show ?thesis
    by (simp add: add_transaction_def update_balance_after_transaction_def Let_def
        split: option.splits)
qed

theorem add_transaction_stores_any_amount_witness:
  "find (\<lambda>c. c_id c = 2) (categories example_db) = Some food
   \<and> snd (add_transaction example_db example_clock 0 ''nothing'' 2 None ''cash'' '''' '''') = Inr 1
   \<and> map t_amount (transactions (fst (add_transaction example_db example_clock 0 ''nothing'' 2 None
                                        ''cash'' '''' ''''))) = [0]"
  using example_db_food
    add_transaction_stores_any_amount [OF example_db_food, where clk = example_clock
      and amount = 0 and description = "''nothing''" and date = None
      and payment_method = "''cash''" and location = "''''" and tags = "''''"]
  by (simp add: next_rowid_def example_db_def empty_db_def food_def)

text \<open>
  The claim as the specification states it fails: an amount of \<open>-5\<close> is accepted and
  stored.
\<close>

theorem add_transaction_nonpositive_counterexample:
  "snd (add_transaction example_db example_clock (- 5) ''refund'' 2 None ''cash'' '''' '''') = Inr 1
   \<and> map t_amount (transactions (fst (add_transaction example_db example_clock (- 5) ''refund'' 2
                                        None ''cash'' '''' ''''))) = [- 5]"
  by (simp add: add_transaction_def update_balance_after_transaction_def Let_def example_db_def
      empty_db_def next_rowid_def food_def)

text \<open>
  Claim C3, evaluated on the code. With a category id that no category has,
  \<open>add_transaction\<close> raises \<open>TypeError\<close>, and only after the insert is committed: the
  new row is in the table, and a query returns it as soon as a category is created under
  that id.
\<close>

theorem add_transaction_unknown_category_commits:
  "snd (add_transaction example_db example_clock 10 ''lunch'' 3 None ''cash'' '''' '''')
     = Inl TypeError
   \<and> map t_id (transactions (fst (add_transaction example_db example_clock 10 ''lunch'' 3 None
                                     ''cash'' '''' ''''))) = [1]
   \<and> map fst (get_transactions
        (fst (insert_category
               (fst (add_transaction example_db example_clock 10 ''lunch'' 3 None ''cash'' '''' ''''))
               (''Travel'', Expense, ''#007bff'')))
        None None None None) = [1]"
  by (simp add: add_transaction_def update_balance_after_transaction_def Let_def example_db_def
      empty_db_def next_rowid_def insert_category_def get_transactions_def txn_join_def
      truthy_str_def truthy_int_def order_newest_first_def select_row_def food_def)

text \<open>
  Claim C4. When the category id resolves, \<open>add_transaction\<close> succeeds. The primary
  account is the row that \<open>SELECT id FROM accounts LIMIT 1\<close> returns, the account with
  the smallest name: its balance changes by exactly \<open>+amount\<close> for an income category
  and by exactly \<open>-amount\<close> for an expense category, and no other account changes
  (names and ids being unique, as the schema has them). When there is no account the call
  succeeds all the same and there is still no account.
\<close>

theorem add_transaction_posts_signed_delta:
  assumes "find (\<lambda>c. c_id c = category_id) (categories s) = Some c"
  shows "snd (add_transaction s clk amount description category_id date payment_method location tags)
           = Inr (next_rowid (seq_transactions s) (map t_id (transactions s)))
       \<and> (accounts s = [] \<longrightarrow>
            accounts (fst (add_transaction s clk amount description category_id date payment_method
                             location tags)) = [])
       \<and> (a \<in> set (accounts s) \<longrightarrow> (\<forall>x\<in>set (accounts s). a_name a \<le> a_name x) \<longrightarrow>
          distinct (map a_name (accounts s)) \<longrightarrow> distinct (map a_id (accounts s)) \<longrightarrow>
            accounts (fst (add_transaction s clk amount description category_id date payment_method
                             location tags))
              = map (\<lambda>x. if x = a
                          then x\<lparr>a_balance := a_balance x
                                 + (case c_type c of Income \<Rightarrow> amount | Expense \<Rightarrow> - amount)\<rparr>
                          else x)
                  (accounts s))"
proof -
  from category_resolves [OF assms] obtain more where
    cat: "[c_type c'. c' \<leftarrow> categories s, c_id c' = category_id] = c_type c # more" by blast
  have ok: "snd (add_transaction s clk amount description category_id date payment_method
                   location tags)
              = Inr (next_rowid (seq_transactions s) (map t_id (transactions s)))"
    using cat
    by (simp add: add_transaction_def update_balance_after_transaction_def Let_def
        split: option.splits)
  have none: "accounts (fst (add_transaction s clk amount description category_id date
                               payment_method location tags)) = []"
    if "accounts s = []"
    using cat that
    by (simp add: add_transaction_def update_balance_after_transaction_def Let_def)
  have some: "accounts (fst (add_transaction s clk amount description category_id date
                               payment_method location tags))
                = map (\<lambda>x. if x = a
                            then x\<lparr>a_balance := a_balance x
                                   + (case c_type c of Income \<Rightarrow> amount | Expense \<Rightarrow> - amount)\<rparr>
                            else x)
                    (accounts s)"
    if "a \<in> set (accounts s)" "\<forall>x\<in>set (accounts s). a_name a \<le> a_name x"
      "distinct (map a_name (accounts s))" "distinct (map a_id (accounts s))"
  proof -
    from that(1-3) have "first_account (accounts s) = Some a"
      by (rule first_account_least)
    with cat show ?thesis
      by (cases "c_type c")
         (simp_all add: add_transaction_def update_balance_after_transaction_def Let_def
            update_one_account [OF that(4) that(1)])
  qed
  from ok none some show ?thesis
    by blast
qed

lemma two_accounts_db_food: "find (\<lambda>c. c_id c = 2) (categories two_accounts_db) = Some food"
  by (simp add: two_accounts_db_def example_db_def empty_db_def food_def)

lemma no_account_db_food: "find (\<lambda>c. c_id c = 2) (categories no_account_db) = Some food"
  by (simp add: no_account_db_def example_db_def empty_db_def food_def)

theorem add_transaction_posts_signed_delta_witness:
  "find (\<lambda>c. c_id c = 2) (categories two_accounts_db) = Some food
   \<and> accounts two_accounts_db = [zeta, alpha]
   \<and> a_name alpha \<le> a_name zeta \<and> a_name alpha \<noteq> a_name zeta \<and> a_id alpha \<noteq> a_id zeta
   \<and> accounts (fst (add_transaction two_accounts_db example_clock 30 ''lunch'' 2 None ''cash''
                       '''' ''''))
       = [zeta, alpha\<lparr>a_balance := 70\<rparr>]
   \<and> accounts no_account_db = []
   \<and> add_transaction no_account_db example_clock 30 ''lunch'' 2 None ''cash'' '''' ''''
       = (no_account_db\<lparr>transactions :=
            [\<lparr>t_id = 1, t_amount = 30, t_description = ''lunch'', t_category_id = 2,
              t_date = ''2024-06-15'', t_payment_method = ''cash'', t_location = '''',
              t_tags = '''', t_created_at = ''2024-06-15 10:00:00''\<rparr>],
            seq_transactions := 1\<rparr>, Inr 1)"
proof -
  have accs: "accounts two_accounts_db = [zeta, alpha]"
    by (simp add: two_accounts_db_def)
  have names: "a_name alpha \<le> a_name zeta" "a_name alpha \<noteq> a_name zeta"
    and ids: "a_id alpha \<noteq> a_id zeta"
    by (simp_all add: alpha_def zeta_def)
  have neq: "zeta \<noteq> alpha"
    using ids by auto
  have b: "accounts no_account_db = []"
    by (simp add: no_account_db_def)
  have two: "accounts (fst (add_transaction two_accounts_db example_clock 30 ''lunch'' 2 None
                              ''cash'' '''' ''''))
               = [zeta, alpha\<lparr>a_balance := 70\<rparr>]"
    using add_transaction_posts_signed_delta [OF two_accounts_db_food,
        where a = alpha and clk = example_clock and amount = 30 and description = "''lunch''"
        and date = None and payment_method = "''cash''" and location = "''''" and tags = "''''"]
      names ids neq
    by (simp add: accs food_def) (simp add: alpha_def)
  have none: "add_transaction no_account_db example_clock 30 ''lunch'' 2 None ''cash'' '''' ''''
       = (no_account_db\<lparr>transactions :=
            [\<lparr>t_id = 1, t_amount = 30, t_description = ''lunch'', t_category_id = 2,
              t_date = ''2024-06-15'', t_payment_method = ''cash'', t_location = '''',
              t_tags = '''', t_created_at = ''2024-06-15 10:00:00''\<rparr>],
            seq_transactions := 1\<rparr>, Inr 1)"
    using b add_transaction_posts_signed_delta [OF no_account_db_food,
        where clk = example_clock and amount = 30 and description = "''lunch''" and date = None
        and payment_method = "''cash''" and location = "''''" and tags = "''''"]
    by (simp add: food_def add_transaction_def update_balance_after_transaction_def Let_def
        example_clock_today example_clock_timestamp no_account_db_def example_db_def
        empty_db_def next_rowid_def)
  show ?thesis
    by (intro conjI) (rule two_accounts_db_food accs names ids two b none)+
qed

text \<open>
  The summary on a ledger that is not empty: after an income of 1000 and an expense of
  300, both dated within the current month, the month's income is 1000, its expenses 300,
  its savings 700, and the net worth 700.
\<close>

lemma month_start_example: "isoformat ((clk_today example_clock)\<lparr>day := 1\<rparr>) = ''2024-06-01''"
  by code_simp

lemma balance_summary_scenario:
  "get_balance_summary
     (fst (add_transaction
        (fst (add_transaction example_db example_clock 1000 ''pay'' 1 None ''bank_transfer'' '''' ''''))
        example_clock 300 ''groceries'' 2 (Some ''2024-06-10'') ''card'' '''' ''''))
     (clk_today example_clock)
   = \<lparr>total_income = 1000, total_expenses = 300, net_worth = 700,
      monthly_income = 1000, monthly_expenses = 300, monthly_savings = 700\<rparr>"
  by (simp add: get_balance_summary_def Let_def sum_amount_def txn_join_def add_transaction_def
      update_balance_after_transaction_def example_db_def empty_db_def food_def next_rowid_def
      month_start_example example_clock_today example_clock_timestamp)

subsection \<open>Budgets\<close>

lemma join_no_match:
  "k \<notin> c_id ` set cs \<Longrightarrow> concat (map (\<lambda>c. if k = c_id c then f c else []) cs) = []"
  by (induction cs) auto

lemma join_row:
  "distinct (map c_id cs) \<Longrightarrow>
   concat (map (\<lambda>c. if k = c_id c then f c else []) cs)
     = (case find (\<lambda>c. c_id c = k) cs of None \<Rightarrow> [] | Some c \<Rightarrow> f c)"
  by (induction cs) (auto simp: join_no_match)

lemma txn_join_distinct:
  "distinct (map c_id (categories s)) \<Longrightarrow>
   txn_join s = concat (map (\<lambda>t. case category_of s (t_category_id t) of
                                   None \<Rightarrow> [] | Some c \<Rightarrow> [(t, c)]) (transactions s))"
  by (simp add: txn_join_def category_of_def join_row)

lemma spent_by_name:
  assumes "distinct (map c_id (categories s))"
  shows "sum_amount (\<lambda>t c'. c_name c' = name \<and> lo \<le> t_date t \<and> t_date t \<le> hi) s
           = spent_in_window s name lo hi"
proof -
  have "[t_amount t. (t, c) \<leftarrow> concat (map (\<lambda>t. case category_of s (t_category_id t) of
                                   None \<Rightarrow> [] | Some c \<Rightarrow> [(t, c)]) ts),
           c_name c = name \<and> lo \<le> t_date t \<and> t_date t \<le> hi]
        = [t_amount t. t \<leftarrow> ts,
                 map_option c_name (category_of s (t_category_id t)) = Some name,
                 lo \<le> t_date t, t_date t \<le> hi]" for ts
    by (induction ts) (auto split: option.splits)
  from this [of "transactions s"] show ?thesis
    by (simp add: sum_amount_def spent_in_window_def txn_join_distinct [OF assms])
qed

lemma active_budgets_distinct:
  assumes "distinct (map c_id (categories s))"
  shows "active_budgets s now
           = map (\<lambda>b. (b, the (category_of s (b_category_id b))))
               [b \<leftarrow> budgets s. now \<le> b_end_date b \<and> category_of s (b_category_id b) \<noteq> None]"
proof -
  have "concat (map (\<lambda>b. concat (map (\<lambda>c. if b_category_id b = c_id c
                                           then if now \<le> b_end_date b then [(b, c)] else []
                                           else []) (categories s))) bs)
        = map (\<lambda>b. (b, the (category_of s (b_category_id b))))
               [b \<leftarrow> bs. now \<le> b_end_date b \<and> category_of s (b_category_id b) \<noteq> None]" for bs
    by (induction bs) (auto simp: join_row [OF assms] category_of_def split: option.splits)
  from this [of "budgets s"] show ?thesis
    by (simp add: active_budgets_def)
qed

lemma budget_db_eq:
  "budget_db = example_db
     \<lparr>transactions :=
        [\<lparr>t_id = 1, t_amount = 300, t_description = ''groceries'', t_category_id = 2,
          t_date = ''2024-06-10'', t_payment_method = ''card'', t_location = '''',
          t_tags = '''', t_created_at = ''2024-06-15 10:00:00''\<rparr>],
      budgets :=
        [\<lparr>b_id = 1, b_category_id = 2, b_amount = 200, b_period = ''monthly'',
          b_start_date = ''2024-06-01'', b_end_date = ''2024-06-30'', b_alert_threshold = 8 / 10\<rparr>],
      accounts := [\<lparr>a_id = 1, a_name = ''Main'', a_balance = - 200\<rparr>],
      seq_transactions := 1, seq_budgets := 1\<rparr>"
  by (simp add: budget_db_def create_budget_def add_transaction_def
      update_balance_after_transaction_def Let_def example_db_def empty_db_def food_def
      next_rowid_def example_clock_timestamp)

text \<open>
  Claim C5, as the code has it. When category ids are unique (they are the primary key),
  \<open>check_budget_status\<close> returns, in table order, one status per budget whose end date
  is not before today and whose category id resolves. In that status \<open>spent\<close> is the sum
  of the ledger amounts booked on the budget's category name within
  \<open>[start_date, end_date]\<close>, \<open>percentage\<close> is \<open>spent / amount * 100\<close> when the amount
  is positive and 0 otherwise, \<open>alert\<close> holds exactly when
  \<open>percentage \<ge> threshold * 100\<close>, and \<open>remaining\<close> is \<open>amount - spent\<close>, which may
  be negative. A budget of 200 with an expense of 300 in its window has percentage 150,
  an alert and \<open>-100\<close> remaining.
\<close>

theorem check_budget_status_per_active_budget:
  assumes "distinct (map c_id (categories s))"
  shows "check_budget_status s now
           = map (spec_budget_status s)
               [b \<leftarrow> budgets s. now \<le> b_end_date b \<and> category_of s (b_category_id b) \<noteq> None]"
  by (simp add: check_budget_status_def active_budgets_distinct [OF assms] spent_by_name [OF assms]
      spec_budget_status_def Let_def)

theorem check_budget_status_per_active_budget_witness:
  "distinct (map c_id (categories budget_db))
   \<and> check_budget_status budget_db ''2024-06-15''
       = [\<lparr>bs_category = ''Food'', bs_budget = 200, bs_spent = 300, bs_remaining = - 100,
            bs_percentage = 150, bs_alert = True, bs_period = ''monthly''\<rparr>]"
proof -
  have d: "distinct (map c_id (categories budget_db))"
    by (simp add: budget_db_eq example_db_def empty_db_def food_def)
  show ?thesis
    using d check_budget_status_per_active_budget [OF d, of "''2024-06-15''"]
    by (simp add: budget_db_eq example_db_def empty_db_def food_def spec_budget_status_def
        category_of_def spent_in_window_def Let_def)
qed

text \<open>
  The claim as the specification states it fails on a database with three budgets whose
  end date has not passed: the budget for the unknown category 7 gets no status, and the
  budget of \<open>-100\<close>, with 300 spent, gets the percentage 0 and not
  \<open>300 / (-100) * 100\<close>.
\<close>

theorem check_budget_status_counterexample:
  "map b_end_date (budgets odd_budgets_db) = [''2024-06-30'', ''2024-06-30'', ''2024-06-30'']
   \<and> (''2024-06-15'' :: string) \<le> ''2024-06-30''
   \<and> map b_amount (budgets odd_budgets_db) = [200, - 100, 50]
   \<and> map bs_budget (check_budget_status odd_budgets_db ''2024-06-15'') = [200, - 100]
   \<and> map bs_spent (check_budget_status odd_budgets_db ''2024-06-15'') = [300, 300]
   \<and> map bs_percentage (check_budget_status odd_budgets_db ''2024-06-15'') = [150, 0]
   \<and> (300 :: real) / (- 100) * 100 \<noteq> 0"
  by (simp add: odd_budgets_db_def budget_db_eq create_budget_def Let_def next_rowid_def
      example_db_def empty_db_def food_def check_budget_status_def active_budgets_def
      sum_amount_def txn_join_def)

subsection \<open>Goals\<close>

lemma set_insert_goal: "set (insert_goal x xs) = insert x (set xs)"
  by (induction xs) auto

lemma set_sorted_goals: "set (foldr insert_goal xs acc) = set xs \<union> set acc"
  by (induction xs) (auto simp: set_insert_goal)

lemma find_update_amount:
  "find (\<lambda>g. g_id g = gid) gs = Some g \<Longrightarrow>
   find (\<lambda>g. g_id g = gid)
     (map (\<lambda>g. if g_id g = gid \<and> g_current_amount g \<ge> g_target_amount g
                then g\<lparr>g_achieved := True\<rparr> else g)
        (map (\<lambda>g. if g_id g = gid then g\<lparr>g_current_amount := g_current_amount g + amount\<rparr> else g) gs))
   = Some (g\<lparr>g_current_amount := g_current_amount g + amount,
             g_achieved := g_achieved g \<or> g_target_amount g \<le> g_current_amount g + amount\<rparr>)"
  by (induction gs) (auto split: if_splits)

lemma update_goal_progress_find:
  "find (\<lambda>g. g_id g = gid) (goals s) = Some g \<Longrightarrow>
   find (\<lambda>g. g_id g = gid) (goals (update_goal_progress s gid amount))
   = Some (g\<lparr>g_current_amount := g_current_amount g + amount,
             g_achieved := g_achieved g \<or> g_target_amount g \<le> g_current_amount g + amount\<rparr>)"
  by (simp add: update_goal_progress_def Let_def find_update_amount del: map_map)

lemma update_goal_progress_many:
  "find (\<lambda>g. g_id g = gid) (goals s) = Some g \<Longrightarrow> g_achieved g \<Longrightarrow>
   find (\<lambda>g. g_id g = gid) (goals (foldl (\<lambda>s a. update_goal_progress s gid a) s amounts))
   = Some (g\<lparr>g_current_amount := g_current_amount g + sum_list amounts\<rparr>)"
proof (induction amounts arbitrary: s g)
  case Nil
  then show ?case by simp
next
  case (Cons a as)
  from update_goal_progress_find [OF Cons.prems(1), of a] Cons.prems(2)
  have "find (\<lambda>g. g_id g = gid) (goals (update_goal_progress s gid a))
          = Some (g\<lparr>g_current_amount := g_current_amount g + a\<rparr>)"
    by simp
  from Cons.IH [OF this] Cons.prems(2) show ?case
    by (simp add: add.assoc)
qed

lemma goal_db_car: "find (\<lambda>g. g_id g = 1) (goals goal_db) = Some car"
  by (simp add: goal_db_def add_goal_def Let_def example_db_def empty_db_def next_rowid_def car_def)

text \<open>
  Claim C7. \<open>update_goal_progress\<close> adds any real amount, negative ones too, to the
  goal's current amount, and afterwards the goal is achieved exactly when it was
  achieved before or its new current amount has reached the target. So a goal that is
  achieved stays achieved through every later sequence of updates, whatever their
  amounts, while its current amount moves by their sum.
\<close>

theorem goal_achieved_one_way:
  assumes "find (\<lambda>g. g_id g = goal_id) (goals s) = Some g"
  shows "find (\<lambda>g. g_id g = goal_id) (goals (update_goal_progress s goal_id amount))
           = Some (g\<lparr>g_current_amount := g_current_amount g + amount,
                     g_achieved := g_achieved g \<or> g_target_amount g \<le> g_current_amount g + amount\<rparr>)
       \<and> (g_achieved g \<longrightarrow>
            find (\<lambda>g. g_id g = goal_id)
                 (goals (foldl (\<lambda>s a. update_goal_progress s goal_id a) s amounts))
              = Some (g\<lparr>g_current_amount := g_current_amount g + sum_list amounts\<rparr>))"
  using update_goal_progress_find [OF assms] update_goal_progress_many [OF assms]
  by simp

theorem goal_achieved_one_way_witness:
  "find (\<lambda>g. g_id g = 1) (goals goal_db) = Some car
   \<and> find (\<lambda>g. g_id g = 1) (goals (update_goal_progress goal_db 1 500))
       = Some (car\<lparr>g_current_amount := 500, g_achieved := True\<rparr>)
   \<and> find (\<lambda>g. g_id g = 1) (goals (update_goal_progress (update_goal_progress goal_db 1 500) 1 (- 100)))
       = Some (car\<lparr>g_current_amount := 400, g_achieved := True\<rparr>)"
proof -
  have first: "find (\<lambda>g. g_id g = 1) (goals (update_goal_progress goal_db 1 500))
                 = Some (car\<lparr>g_current_amount := 500, g_achieved := True\<rparr>)"
    using goal_achieved_one_way [OF goal_db_car, of 500 "[]"] by (simp add: car_def)
  show ?thesis
    using goal_db_car first goal_achieved_one_way [OF first, of "- 100" "[- 100]"]
    by (simp add: car_def)
qed

text \<open>
  Claim C8, evaluated on the code. \<open>add_goal\<close> does not reject a target amount of 0:
  the call returns the new goal id and stores the goal. \<open>get_goals\<close> then divides by
  that target, which the sibling divisions of the code guard against and this one does
  not, and lists the goal with the progress \<open>NULL\<close>.
\<close>

theorem add_goal_accepts_zero_target:
  "snd (add_goal s name 0 target_date description priority)
     = Inr (next_rowid (seq_goals s) (map g_id (goals s)))
   \<and> (\<exists>g. goals (fst (add_goal s name 0 target_date description priority)) = goals s @ [g]
          \<and> g_target_amount g = 0
          \<and> (g, None) \<in> set (get_goals (fst (add_goal s name 0 target_date description priority))))"
  by (simp add: add_goal_def Let_def get_goals_def set_sorted_goals progress_def image_iff)

text \<open>
  On the example database: the goal with target 0 gets the id 1 and is listed with the
  progress \<open>NULL\<close>.
\<close>

lemma add_goal_zero_target_example:
  "snd (add_goal example_db ''Car'' 0 None '''' 1) = Inr 1
   \<and> map g_target_amount (goals (fst (add_goal example_db ''Car'' 0 None '''' 1))) = [0]
   \<and> map snd (get_goals (fst (add_goal example_db ''Car'' 0 None '''' 1))) = [None]"
  by (simp add: add_goal_def Let_def get_goals_def progress_def example_db_def empty_db_def
      next_rowid_def)

subsection \<open>Default categories\<close>

lemma executemany_categories_fresh:
  "distinct (map fst rows) \<Longrightarrow> set (map fst rows) \<inter> set (map c_name (categories s)) = {} \<Longrightarrow>
   snd (executemany_categories s rows) = Inr ()
   \<and> map row_of (categories (fst (executemany_categories s rows)))
       = map row_of (categories s) @ rows"
proof (induction rows arbitrary: s)
  case Nil
  then show ?case by simp
next
  case (Cons row rows)
  obtain name type color where row: "row = (name, type, color)" by (cases row)
  from Cons.prems have fresh: "name \<notin> set (map c_name (categories s))"
    by (auto simp: row)
  obtain s' where ins: "insert_category s row = (s', Inr ())"
    using fresh by (simp add: insert_category_def row Let_def)
  from ins fresh have cats: "map row_of (categories s') = map row_of (categories s) @ [row]"
    and names: "map c_name (categories s') = map c_name (categories s) @ [name]"
    by (auto simp: insert_category_def row Let_def row_of_def)
  from Cons.prems have "distinct (map fst rows)"
    and "set (map fst rows) \<inter> set (map c_name (categories s')) = {}"
    unfolding names by (auto simp: row)
  from Cons.IH [OF this] cats show ?case
    by (simp add: ins)
qed

lemma default_names_distinct: "distinct (map fst default_categories)"
  by (simp add: default_categories_def Zarplata_def Frilans_def Investitsii_def
      Eda_i_razvlecheniya_def Transport_def Pokupki_def Razvlecheniya_def
      Scheta_i_kommunalnye_def Zdorovye_def Obrazovanie_def)

lemma names_of_rows: "map c_name cs = map fst (map row_of cs)"
  by (simp add: row_of_def)

lemma populate_empty:
  assumes "categories s = []"
  shows "snd (populate_default_categories s) = Inr ()"
    and "map row_of (categories (fst (populate_default_categories s))) = default_categories"
  using executemany_categories_fresh [OF default_names_distinct, of s] assms
  by (simp_all add: populate_default_categories_def)

lemma populate_nonempty:
  "categories s \<noteq> [] \<Longrightarrow> populate_default_categories s = (s, Inr ())"
  by (simp add: populate_default_categories_def)

lemma default_categories_nonempty: "default_categories \<noteq> []"
  by (simp add: default_categories_def)

text \<open>
  Claim C9. \<open>populate_default_categories\<close> inserts the ten default categories, in their
  order, when the table is empty, and leaves the database as it is when the table holds
  any category. Running it again after itself therefore changes nothing, and it never
  makes two categories share a name.
\<close>

theorem populate_default_categories_idempotent:
  "(categories s = [] \<longrightarrow>
      snd (populate_default_categories s) = Inr ()
      \<and> map row_of (categories (fst (populate_default_categories s))) = default_categories)
   \<and> (categories s \<noteq> [] \<longrightarrow> populate_default_categories s = (s, Inr ()))
   \<and> populate_default_categories (fst (populate_default_categories s))
       = (fst (populate_default_categories s), Inr ())
   \<and> (distinct (map c_name (categories s)) \<longrightarrow>
       distinct (map c_name (categories (fst (populate_default_categories s)))))"
proof (cases "categories s = []")
  case True
  note p = populate_empty [OF True]
  have ne: "categories (fst (populate_default_categories s)) \<noteq> []"
    using p(2) default_categories_nonempty by auto
  have "distinct (map c_name (categories (fst (populate_default_categories s))))"
    using default_names_distinct p(2) by (simp add: names_of_rows)
  with True p ne show ?thesis
    by (simp add: populate_nonempty)
next
  case False
  then show ?thesis by (simp add: populate_nonempty)
qed

theorem populate_default_categories_idempotent_witness:
  "categories empty_db = []
   \<and> snd (populate_default_categories empty_db) = Inr ()
   \<and> map row_of (categories (fst (populate_default_categories empty_db))) = default_categories
   \<and> categories (fst (populate_default_categories empty_db)) \<noteq> []
   \<and> populate_default_categories (fst (populate_default_categories empty_db))
       = (fst (populate_default_categories empty_db), Inr ())
   \<and> distinct (map c_name (categories (fst (populate_default_categories empty_db))))"
proof -
  have e: "categories empty_db = []"
    by (simp add: empty_db_def)
  note first = populate_default_categories_idempotent [of empty_db]
  from first e have rows:
    "map row_of (categories (fst (populate_default_categories empty_db))) = default_categories"
    by simp
  then have ne: "categories (fst (populate_default_categories empty_db)) \<noteq> []"
    using default_categories_nonempty by auto
  show ?thesis
    using e ne first populate_default_categories_idempotent
      [of "fst (populate_default_categories empty_db)"]
    by simp
qed

subsection \<open>Queries\<close>

lemma length_insert_newest_first: "length (insert_newest_first x xs) = Suc (length xs)"
  by (induction xs) auto

lemma length_order_newest_first: "length (order_newest_first xs) = length xs"
  unfolding order_newest_first_def
  by (induction xs) (auto simp: length_insert_newest_first)

lemma set_insert_newest_first: "set (insert_newest_first x xs) = insert x (set xs)"
  by (induction xs) auto

lemma set_order_newest_first: "set (order_newest_first xs) = set xs"
  unfolding order_newest_first_def
  by (induction xs) (auto simp: set_insert_newest_first)

lemma concat_singletons: "concat (map (\<lambda>(t, c). [(t, c)]) xs) = xs"
  by (induction xs) auto

text \<open>
  Claim C10. \<open>get_transactions\<close> tests its optional arguments by their truth value, so
  \<open>limit = 0\<close> gives the same rows as no limit and \<open>category_id = 0\<close> the same rows as
  no category filter. With both set to 0 and no dates, the result holds every row of
  the join of the ledger with its categories, and not an empty list.
\<close>

theorem get_transactions_zero_is_absent:
  "get_transactions s start_date end_date category_id (Some 0)
     = get_transactions s start_date end_date category_id None
   \<and> get_transactions s start_date end_date (Some 0) limit
     = get_transactions s start_date end_date None limit
   \<and> length (get_transactions s None None (Some 0) (Some 0)) = length (txn_join s)
   \<and> set (get_transactions s None None (Some 0) (Some 0)) = select_row ` set (txn_join s)"
  by (simp add: get_transactions_def truthy_int_def truthy_str_def Let_def
      length_order_newest_first set_order_newest_first concat_singletons)

subsection \<open>The report window\<close>

lemma DI_values: "DI400Y = 146097" "DI100Y = 36524" "DI4Y = 1461"
  by (simp_all add: DI400Y_def DI100Y_def DI4Y_def days_before_year_def)

lemma ord2ymd_by_digits:
  assumes "(n0 - 1) div DI400Y = n400" "(n0 - 1) mod DI400Y = r1"
    and "r1 div DI100Y = n100" "r1 mod DI100Y = r2"
    and "r2 div DI4Y = n4" "r2 mod DI4Y = r3"
    and "r3 div 365 = n1" "r3 mod 365 = n"
  shows "ord2ymd n0 =
           (if n1 = 4 \<or> n100 = 4 then (n400 * 400 + 1 + n100 * 100 + n4 * 4 + n1 - 1, 12, 31)
            else case month_day n (n1 = 3 \<and> (n4 \<noteq> 24 \<or> n100 = 3)) of
                   (m, d) \<Rightarrow> (n400 * 400 + 1 + n100 * 100 + n4 * 4 + n1, m, d))"
  using assms by (simp add: ord2ymd_def month_day_def Let_def)

lemma digit:
  fixes D q r :: int
  assumes "0 \<le> r" "r < D"
  shows "(D * q + r) div D = q" "(D * q + r) mod D = r"
  using assms by simp_all

lemma month_cases:
  fixes m :: int
  assumes "1 \<le> m" "m \<le> 12"
  shows "m \<in> {1, 2, 3, 4, 5, 6, 7, 8, 9, 10, 11, 12}"
  using assms by simp presburger

lemma month_day_correct:
  assumes m: "m \<in> {1, 2, 3, 4, 5, 6, 7, 8, 9, 10, 11, 12}"
    and d: "1 \<le> d" "d \<le> (if m = 2 \<and> L then 29 else DAYS_IN_MONTH ! nat m)"
    and k: "k = DAYS_BEFORE_MONTH ! nat m + (if m > 2 \<and> L then 1 else 0) + d - 1"
  shows "month_day k L = (m, d)"
proof -
  have est: "(k + 50) div 32 = m \<or> ((k + 50) div 32 = m + 1 \<and> m \<le> 11)"
    using m d unfolding k
    by (elim insertE emptyE; cases L; simp add: DAYS_IN_MONTH_def DAYS_BEFORE_MONTH_def; arith)
  with m d show ?thesis
    unfolding k
    by (elim insertE emptyE disjE conjE; cases L;
        simp add: month_day_def Let_def DAYS_IN_MONTH_def DAYS_BEFORE_MONTH_def)
qed

lemma div_split:
  fixes Y :: int
  assumes "0 < p"
  shows "Y div p = q * (Y div (p * q)) + Y mod (p * q) div p"
proof -
  have "Y div p = (p * (q * (Y div (p * q))) + Y mod (p * q)) div p"
    by (simp add: mult.assoc [symmetric])
  also have "\<dots> = q * (Y div (p * q)) + Y mod (p * q) div p"
    using assms by (simp only: div_mult_self4) 
  finally show ?thesis .
qed

lemma mod_split:
  fixes Y :: int
  shows "Y mod (p * q) = p * (Y mod (p * q) div p) + Y mod p"
proof -
  have "Y mod (p * q) = p * (Y mod (p * q) div p) + Y mod (p * q) mod p"
    by (rule mult_div_mod_eq [symmetric])
  also have "Y mod (p * q) mod p = Y mod p"
    by (rule mod_mod_cancel) simp
  finally show ?thesis .
qed

lemma year_div_100: "(Y :: int) div 100 = 4 * (Y div 400) + Y mod 400 div 100"
  using div_split [of 100 Y 4] by simp

lemma year_div_4: "(Y :: int) div 4 = 25 * (Y div 100) + Y mod 100 div 4"
  using div_split [of 4 Y 25] by simp

lemma year_mod_400: "(Y :: int) mod 400 = 100 * (Y mod 400 div 100) + Y mod 100"
  using mod_split [of Y 100 4] by simp

lemma year_mod_100: "(Y :: int) mod 100 = 4 * (Y mod 100 div 4) + Y mod 4"
  using mod_split [of Y 4 25] by simp

lemma century_bounds: "0 \<le> (Y :: int) mod 400 div 100 \<and> Y mod 400 div 100 \<le> 3"
proof -
  have "0 \<le> r \<Longrightarrow> r < 400 \<Longrightarrow> 0 \<le> r div 100 \<and> r div 100 \<le> 3" for r :: int
    by arith
  then show ?thesis by simp
qed

lemma quad_bounds: "0 \<le> (Y :: int) mod 100 div 4 \<and> Y mod 100 div 4 \<le> 24"
proof -
  have "0 \<le> r \<Longrightarrow> r < 100 \<Longrightarrow> 0 \<le> r div 4 \<and> r div 4 \<le> 24" for r :: int
    by arith
  then show ?thesis by simp
qed

lemma mod_pred:
  fixes y n :: int
  assumes "0 < n"
  shows "y mod n = 0 \<longleftrightarrow> (y - 1) mod n = n - 1"
proof
  assume z: "y mod n = 0"
  have "(y - 1) mod n = (y mod n - 1) mod n"
    by (simp add: mod_diff_left_eq)
  also have "\<dots> = (- 1) mod n"
    by (simp add: z)
  also have "\<dots> = n - 1"
    using assms by (simp add: zmod_minus1)
  finally show "(y - 1) mod n = n - 1" .
next
  assume h: "(y - 1) mod n = n - 1"
  have "y mod n = ((y - 1) mod n + 1) mod n"
    by (simp add: mod_add_left_eq)
  also have "\<dots> = 0"
    unfolding h by simp
  finally show "y mod n = 0" .
qed

text \<open>
  The year before \<open>y\<close>, written with its digits: 400-year cycles, centuries, 4-year
  cycles and single years.
\<close>

lemma year_digits:
  fixes y :: int
  obtains a b c e where
    "y - 1 = 400 * a + 100 * b + 4 * c + e"
    "0 \<le> b" "b \<le> 3" "0 \<le> c" "c \<le> 24" "0 \<le> e" "e \<le> 3"
    "days_before_year y = 146097 * a + 36524 * b + 1461 * c + 365 * e"
    "is_leap y \<longleftrightarrow> e = 3 \<and> (c \<noteq> 24 \<or> b = 3)"
proof -
  define Y where "Y = y - 1"
  define a where "a = Y div 400"
  define b where "b = Y mod 400 div 100"
  define c where "c = Y mod 100 div 4"
  define e where "e = Y mod 4"
  have b: "0 \<le> b" "b \<le> 3" and c: "0 \<le> c" "c \<le> 24" and e: "0 \<le> e" "e \<le> 3"
    using century_bounds [of Y] quad_bounds [of Y] by (simp_all add: b_def c_def e_def)
  have m100: "Y mod 100 = 4 * c + e"
    unfolding c_def e_def by (rule year_mod_100)
  have m400: "Y mod 400 = 100 * b + (4 * c + e)"
    unfolding b_def m100 [symmetric] by (rule year_mod_400)
  have "Y = 400 * a + Y mod 400"
    unfolding a_def by (rule mult_div_mod_eq [symmetric])
  then have Y: "Y = 400 * a + 100 * b + 4 * c + e"
    unfolding m400 by simp
  have d100: "Y div 100 = 4 * a + b"
    unfolding a_def b_def by (rule year_div_100)
  have d4: "Y div 4 = 25 * (4 * a + b) + c"
    unfolding d100 [symmetric] c_def by (rule year_div_4)
  have d400: "Y div 400 = a"
    by (simp add: a_def)
  have dby: "days_before_year y = 146097 * a + 36524 * b + 1461 * c + 365 * e"
    unfolding days_before_year_def Let_def Y_def [symmetric] d4 d100 d400
    by (simp add: Y)
  have l4: "y mod 4 = 0 \<longleftrightarrow> Y mod 4 = 3"
    using mod_pred [of 4 y] by (simp add: Y_def)
  have l100: "y mod 100 = 0 \<longleftrightarrow> Y mod 100 = 99"
    using mod_pred [of 100 y] by (simp add: Y_def)
  have l400: "y mod 400 = 0 \<longleftrightarrow> Y mod 400 = 399"
    using mod_pred [of 400 y] by (simp add: Y_def)
  have leap: "is_leap y \<longleftrightarrow> e = 3 \<and> (c \<noteq> 24 \<or> b = 3)"
    unfolding is_leap_def l4 l100 l400 m100 m400 e_def [symmetric]
    using b c e by auto
  from Y b c e dby leap show ?thesis
    by (intro that [of a b c e]) (simp_all add: Y_def)
qed

lemma ord2ymd_ymd2ord:
  assumes m: "1 \<le> m" "m \<le> 12" and d: "1 \<le> d" "d \<le> days_in_month y m"
  shows "ord2ymd (ymd2ord y m d) = (y, m, d)"
proof -
  obtain a b c e where Y: "y - 1 = 400 * a + 100 * b + 4 * c + e"
    and b: "0 \<le> b" "b \<le> 3" and c: "0 \<le> c" "c \<le> 24" and e: "0 \<le> e" "e \<le> 3"
    and dby: "days_before_year y = 146097 * a + 36524 * b + 1461 * c + 365 * e"
    and leap: "is_leap y \<longleftrightarrow> e = 3 \<and> (c \<noteq> 24 \<or> b = 3)"
    by (rule year_digits)
  define L where "L \<longleftrightarrow> e = 3 \<and> (c \<noteq> 24 \<or> b = 3)"
  define k where "k = DAYS_BEFORE_MONTH ! nat m + (if m > 2 \<and> L then 1 else 0) + d - 1"
  define R3 where "R3 = 365 * e + k"
  define R2 where "R2 = 1461 * c + R3"
  define R1 where "R1 = 36524 * b + R2"
  have mset: "m \<in> {1, 2, 3, 4, 5, 6, 7, 8, 9, 10, 11, 12}"
    using m by (rule month_cases)
  have dL: "d \<le> (if m = 2 \<and> L then 29 else DAYS_IN_MONTH ! nat m)"
    using d by (simp add: days_in_month_def leap L_def)
  have md: "month_day k L = (m, d)"
    using mset d(1) dL k_def by (rule month_day_correct)
  have k0: "0 \<le> k" and k365: "k \<le> (if L then 365 else 364)"
    and last: "k = 365 \<longrightarrow> m = 12 \<and> d = 31"
    using mset d(1) dL unfolding k_def
    by (elim insertE emptyE; cases L; simp add: DAYS_IN_MONTH_def DAYS_BEFORE_MONTH_def)+
  have ord: "ymd2ord y m d - 1 = 146097 * a + R1"
    by (simp add: ymd2ord_def days_before_month_def dby leap L_def k_def R1_def R2_def R3_def)
  show ?thesis
  proof (cases "k = 365")
    case False
    with k365 have k364: "k \<le> 364"
      by (cases L) simp_all
    have "R3 \<le> 1459"
      using e k364 by (simp add: R3_def)
    then have r3: "0 \<le> R3" "R3 < 1461"
      using e k0 by (simp_all add: R3_def)
    have "R2 \<le> 36523"
      using c \<open>R3 \<le> 1459\<close> by (simp add: R2_def)
    then have r2: "0 \<le> R2" "R2 < 36524"
      using c r3 by (simp_all add: R2_def)
    have r1: "0 \<le> R1" "R1 < 146097"
      using b r2 \<open>R2 \<le> 36523\<close> by (simp_all add: R1_def)
    have r4: "0 \<le> k" "k < 365"
      using k0 k364 by simp_all
    have s1: "(ymd2ord y m d - 1) div DI400Y = a" "(ymd2ord y m d - 1) mod DI400Y = R1"
      unfolding ord DI_values by (rule digit [OF r1])+
    have s2: "R1 div DI100Y = b" "R1 mod DI100Y = R2"
      unfolding R1_def DI_values by (rule digit [OF r2])+
    have s3: "R2 div DI4Y = c" "R2 mod DI4Y = R3"
      unfolding R2_def DI_values by (rule digit [OF r3])+
    have s4: "R3 div 365 = e" "R3 mod 365 = k"
      unfolding R3_def by (rule digit [OF r4])+
    from ord2ymd_by_digits [OF s1 s2 s3 s4] b e md Y show ?thesis
      by (simp add: L_def)
  next
    case True
    with k365 last have L: "L" and m12: "m = 12" and d31: "d = 31"
      by (cases L; simp)+
    then have e3: "e = 3"
      by (simp add: L_def)
    show ?thesis
    proof (cases "c = 24")
      case True
      with L have b3: "b = 3"
        by (simp add: L_def)
      have R1: "R1 = 146096"
        by (simp add: R1_def R2_def R3_def b3 True e3 \<open>k = 365\<close>)
      have s1: "(ymd2ord y m d - 1) div DI400Y = a" "(ymd2ord y m d - 1) mod DI400Y = 146096"
        unfolding ord DI_values R1 by (rule digit; simp)+
      have s2: "(146096 :: int) div DI100Y = 4" "(146096 :: int) mod DI100Y = 0"
        by (simp_all add: DI_values)
      have s3: "(0 :: int) div DI4Y = 0" "(0 :: int) mod DI4Y = 0"
        by simp_all
      have s4: "(0 :: int) div 365 = 0" "(0 :: int) mod 365 = 0"
        by simp_all
      from ord2ymd_by_digits [OF s1 s2 s3 s4] Y show ?thesis
        by (simp add: b3 True e3 m12 d31)
    next
      case False
      with c have c23: "c \<le> 23"
        by simp
      have R3: "R3 = 1460"
        by (simp add: R3_def e3 \<open>k = 365\<close>)
      have "R2 \<le> 35063"
        using c23 by (simp add: R2_def R3)
      then have r2: "0 \<le> R2" "R2 < 36524"
        using c by (simp_all add: R2_def R3)
      have r1: "0 \<le> R1" "R1 < 146097"
        using b r2 \<open>R2 \<le> 35063\<close> by (simp_all add: R1_def)
      have s1: "(ymd2ord y m d - 1) div DI400Y = a" "(ymd2ord y m d - 1) mod DI400Y = R1"
        unfolding ord DI_values by (rule digit [OF r1])+
      have s2: "R1 div DI100Y = b" "R1 mod DI100Y = R2"
        unfolding R1_def DI_values by (rule digit [OF r2])+
      have s3: "R2 div DI4Y = c" "R2 mod DI4Y = 1460"
        unfolding R2_def R3 DI_values by (rule digit; simp)+
      have s4: "(1460 :: int) div 365 = 4" "(1460 :: int) mod 365 = 0"
        by simp_all
      from ord2ymd_by_digits [OF s1 s2 s3 s4] Y show ?thesis
        by (simp add: e3 m12 d31)
    qed
  qed
qed

lemma days_in_month_calendar:
  assumes "m \<in> {1, 2, 3, 4, 5, 6, 7, 8, 9, 10, 11, 12}"
  shows "days_in_month y m = last_day_of_month y m"
  using assms
  by (elim insertE emptyE) (simp_all add: days_in_month_def last_day_of_month_def is_leap_def
      DAYS_IN_MONTH_def)

lemma div_pred:
  fixes y n :: int
  assumes "0 < n"
  shows "y div n = (y - 1) div n + (if y mod n = 0 then 1 else 0)"
proof -
  define q where "q = y div n"
  define r where "r = y mod n"
  have y: "y = n * q + r"
    unfolding q_def r_def by (rule mult_div_mod_eq [symmetric])
  have r: "0 \<le> r" "r < n"
    using assms by (simp_all add: r_def)
  show ?thesis
  proof (cases "r = 0")
    case True
    have "y - 1 = n * (q - 1) + (n - 1)"
      by (simp add: y True algebra_simps)
    moreover have "(n * (q - 1) + (n - 1)) div n = q - 1"
      using assms by (intro digit) simp_all
    ultimately have "(y - 1) div n = q - 1"
      by (simp only:)
    with True show ?thesis
      by (simp add: q_def [symmetric] r_def [symmetric])
  next
    case False
    have "y - 1 = n * q + (r - 1)"
      by (simp add: y)
    moreover have "(n * q + (r - 1)) div n = q"
      using r False by (intro digit) simp_all
    ultimately have "(y - 1) div n = q"
      by (simp only:)
    with False show ?thesis
      by (simp add: q_def [symmetric] r_def [symmetric])
  qed
qed

lemma days_before_next_year:
  "days_before_year (y + 1) = days_before_year y + (if is_leap y then 366 else 365)"
proof -
  define A where "A = (y - 1) div 4"
  define B where "B = (y - 1) div 100"
  define C where "C = (y - 1) div 400"
  define i4 :: int where "i4 = (if y mod 4 = 0 then 1 else 0)"
  define i100 :: int where "i100 = (if y mod 100 = 0 then 1 else 0)"
  define i400 :: int where "i400 = (if y mod 400 = 0 then 1 else 0)"
  have a: "y div 4 = A + i4"
    unfolding A_def i4_def by (rule div_pred) simp
  have b: "y div 100 = B + i100"
    unfolding B_def i100_def by (rule div_pred) simp
  have c: "y div 400 = C + i400"
    unfolding C_def i400_def by (rule div_pred) simp
  have succ: "days_before_year (y + 1) = y * 365 + y div 4 - y div 100 + y div 400"
    by (simp add: days_before_year_def)
  have this_year: "days_before_year y = (y - 1) * 365 + A - B + C"
    by (simp add: days_before_year_def Let_def A_def B_def C_def)
  have h1: "y mod 100 = 0" if "y mod 400 = 0"
  proof -
    have "y mod 100 = y mod 400 mod 100"
      by (rule mod_mod_cancel [symmetric]) simp
    then show ?thesis
      by (simp only: that mod_0)
  qed
  have h2: "y mod 4 = 0" if "y mod 100 = 0"
  proof -
    have "y mod 4 = y mod 100 mod 4"
      by (rule mod_mod_cancel [symmetric]) simp
    then show ?thesis
      by (simp only: that mod_0)
  qed
  have leap: "(if is_leap y then 366 else 365) = 365 + i4 - i100 + i400"
  proof (cases "y mod 100 = 0")
    case True
    note h2 [OF True]
    then show ?thesis
      by (cases "y mod 400 = 0") (simp_all add: is_leap_def i4_def i100_def i400_def True)
  next
    case False
    have "y mod 400 \<noteq> 0"
    proof
      assume "y mod 400 = 0"
      then have "y mod 100 = 0"
        by (rule h1)
      with False show False
        by (rule notE)
    qed
    with False show ?thesis
      by (cases "y mod 4 = 0") (simp_all add: is_leap_def i4_def i100_def i400_def)
  qed
  show ?thesis
    unfolding succ this_year a b c leap by (simp add: algebra_simps)
qed

lemma first_of_next_month:
  assumes "m \<in> {1, 2, 3, 4, 5, 6, 7, 8, 9, 10, 11, 12}"
  shows "(if m = 12 then ymd2ord (y + 1) 1 1 else ymd2ord y (m + 1) 1) - 1
           = ymd2ord y m (days_in_month y m)"
  using assms
  by (elim insertE emptyE)
     (simp_all add: ymd2ord_def days_before_month_def days_in_month_def days_before_next_year
        DAYS_IN_MONTH_def DAYS_BEFORE_MONTH_def)

lemma days_before_year_bounds:
  assumes "1 \<le> y"
  shows "0 \<le> days_before_year y"
    and "y \<le> 9999 \<Longrightarrow> days_before_year y \<le> 3651694"
    and "y \<le> 9998 \<Longrightarrow> days_before_year y \<le> 3651329"
proof -
  obtain a b c e where Y: "y - 1 = 400 * a + 100 * b + 4 * c + e"
    and b: "0 \<le> b" "b \<le> 3" and c: "0 \<le> c" "c \<le> 24" and e: "0 \<le> e" "e \<le> 3"
    and dby: "days_before_year y = 146097 * a + 36524 * b + 1461 * c + 365 * e"
    by (rule year_digits)
  from assms Y b c e have "0 \<le> a"
    by linarith
  with b c e show "0 \<le> days_before_year y"
    by (simp add: dby)
  show "days_before_year y \<le> 3651694" if "y \<le> 9999"
  proof -
    from that Y b c e have "a \<le> 24"
      by linarith
    with that Y b c e show ?thesis
      unfolding dby by linarith
  qed
  show "days_before_year y \<le> 3651329" if "y \<le> 9998"
  proof -
    from that Y b c e have "a \<le> 24"
      by linarith
    with that Y b c e show ?thesis
      unfolding dby by linarith
  qed
qed

lemma day_of_year_bounds:
  assumes "m \<in> {1, 2, 3, 4, 5, 6, 7, 8, 9, 10, 11, 12}"
  shows "0 \<le> days_before_month y m" "1 \<le> days_in_month y m"
    and "days_before_month y m + days_in_month y m \<le> 366"
    and "m \<noteq> 12 \<Longrightarrow> days_before_month y m + days_in_month y m \<le> 335"
  using assms
  by (elim insertE emptyE;
      simp add: days_before_month_def days_in_month_def DAYS_IN_MONTH_def DAYS_BEFORE_MONTH_def)+

lemma last_day_ordinal:
  assumes y: "1 \<le> y" "y \<le> 9999" and m: "m \<in> {1, 2, 3, 4, 5, 6, 7, 8, 9, 10, 11, 12}"
    and not_last: "\<not> (y = 9999 \<and> m = 12)"
  shows "0 < ymd2ord y m (days_in_month y m)" "ymd2ord y m (days_in_month y m) \<le> MAXORDINAL"
proof -
  note doy = day_of_year_bounds [OF m, of y]
  from days_before_year_bounds(1) [OF y(1)] doy(1,2)
  show "0 < ymd2ord y m (days_in_month y m)"
    by (simp add: ymd2ord_def)
  show "ymd2ord y m (days_in_month y m) \<le> MAXORDINAL"
  proof (cases "y = 9999")
    case True
    with not_last have "m \<noteq> 12" by simp
    from doy(4) [OF this] days_before_year_bounds(2) [OF y] show ?thesis
      by (simp add: ymd2ord_def MAXORDINAL_def)
  next
    case False
    with y have "y \<le> 9998" by simp
    from doy(3) days_before_year_bounds(3) [OF y(1) this] show ?thesis
      by (simp add: ymd2ord_def MAXORDINAL_def)
  qed
qed

lemma report_window_example_1: "report_window 2024 12 = Inr (''2024-12-01'', ''2024-12-31'')"
  by code_simp

lemma report_window_example_2: "report_window 2023 2 = Inr (''2023-02-01'', ''2023-02-28'')"
  by code_simp

text \<open>
  Claim C6, as the code has it. For every year from 1 to 9999 and every month from 1 to
  12, December 9999 excepted, the window of \<open>generate_monthly_report\<close> runs from the
  first day of that month to its last calendar day: the code steps to the first day of
  the next month, January of the next year after December, and takes the day of the date
  one day earlier. The window of December 2024 ends on 2024-12-31 and that of February
  2023 on 2023-02-28.
\<close>

theorem report_window_last_calendar_day:
  assumes "1 \<le> y" "y \<le> 9999" "1 \<le> m" "m \<le> 12" "\<not> (y = 9999 \<and> m = 12)"
  shows "report_window y m
           = Inr (py_str y @ ''-'' @ py_format_0d 2 m @ ''-01'',
                  py_str y @ ''-'' @ py_format_0d 2 m @ ''-'' @ py_format_0d 2 (last_day_of_month y m))
       \<and> report_window 2024 12 = Inr (''2024-12-01'', ''2024-12-31'')
       \<and> report_window 2023 2 = Inr (''2023-02-01'', ''2023-02-28'')"
proof -
  have mset: "m \<in> {1, 2, 3, 4, 5, 6, 7, 8, 9, 10, 11, 12}"
    using assms(3,4) by (rule month_cases)
  define y2 where "y2 = (if m = 12 then y + 1 else y)"
  define m2 where "m2 = (if m = 12 then 1 else m + 1)"
  have m2: "1 \<le> m2" "m2 \<le> 12"
    using assms(3,4) by (simp_all add: m2_def)
  then have m2set: "m2 \<in> {1, 2, 3, 4, 5, 6, 7, 8, 9, 10, 11, 12}"
    by (rule month_cases)
  have y2: "1 \<le> y2" "y2 \<le> 9999"
    using assms(1,2,5) by (auto simp: y2_def)
  have "(if m = 12 then date_new (y + 1) 1 1 else date_new y (m + 1) 1) = date_new y2 m2 1"
    by (simp add: y2_def m2_def)
  also have "\<dots> = Inr \<lparr>year = y2, month = m2, day = 1\<rparr>"
    using y2 m2 day_of_year_bounds(2) [OF m2set, of y2]
    by (simp add: date_new_def MINYEAR_def MAXYEAR_def)
  finally have next_month:
    "(if m = 12 then date_new (y + 1) 1 1 else date_new y (m + 1) 1)
       = Inr \<lparr>year = y2, month = m2, day = 1\<rparr>" .
  have ordinal: "toordinal \<lparr>year = y2, month = m2, day = 1\<rparr> - 1
                   = ymd2ord y m (days_in_month y m)"
    using first_of_next_month [OF mset, of y]
    by (cases "m = 12") (simp_all add: toordinal_def y2_def m2_def)
  have last: "date_sub_days \<lparr>year = y2, month = m2, day = 1\<rparr> 1
                = Inr \<lparr>year = y, month = m, day = days_in_month y m\<rparr>"
    using last_day_ordinal [OF assms(1,2) mset assms(5)]
      ord2ymd_ymd2ord [OF assms(3,4) day_of_year_bounds(2) [OF mset, of y] order_refl]
    by (simp add: date_sub_days_def Let_def ordinal fromordinal_def)
  have "report_window y m
           = Inr (py_str y @ ''-'' @ py_format_0d 2 m @ ''-01'',
                  py_str y @ ''-'' @ py_format_0d 2 m @ ''-'' @ py_format_0d 2 (last_day_of_month y m))"
    by (simp add: report_window_def Let_def next_month last days_in_month_calendar [OF mset])
  with report_window_example_1 report_window_example_2 show ?thesis
    by simp
qed

theorem report_window_last_calendar_day_witness:
  "(1 :: int) \<le> 2024 \<and> (2024 :: int) \<le> 9999 \<and> (1 :: int) \<le> 2 \<and> (2 :: int) \<le> 12
   \<and> \<not> ((2024 :: int) = 9999 \<and> (2 :: int) = 12)
   \<and> report_window 2024 2 = Inr (''2024-02-01'', ''2024-02-29'')"
proof -
  have y: "py_str 2024 = ''2024''"
    by code_simp
  have m: "py_format_0d 2 2 = ''02''"
    by code_simp
  have d: "py_format_0d 2 29 = ''29''"
    by code_simp
  show ?thesis
    using report_window_last_calendar_day [of 2024 2]
    by (simp add: last_day_of_month_def y m d)
qed

text \<open>
  The claim as the specification states it fails for December 9999: the step to January
  of the year 10000 leaves the years that \<open>datetime.date\<close> has, and the constructor
  raises \<open>ValueError\<close>.
\<close>

theorem report_window_december_9999_counterexample:
  "report_window 9999 12 = Inl ValueError"
  by (simp add: report_window_def date_new_def MINYEAR_def MAXYEAR_def)

end
